theory Spec2Isabelle
  imports Main "HOL-Library.Word" "HOL-Library.Sublist"
begin

section \<open>Data model\<close>

text \<open>
  Go's \<open>time.Duration\<close> is a signed 64-bit count of nanoseconds and \<open>int\<close> is taken at
  its 64-bit width; both are words whose arithmetic wraps and whose comparisons are the
  signed ones. An \<open>error\<close> is a value: \<open>External\<close> carries the text of an error that
  an interface outside the package returned (the registry agent, \<open>url.Parse\<close>), the other
  constructors are the errors the package builds itself; \<open>nil\<close> is \<open>None\<close>.
\<close>

type_synonym Duration = "64 word"
type_synonym go_int = "64 word"

datatype error =
  External string
| ErrQueryServices error
| ErrQueryChecks error
| ErrCheckTypeNotValid string
| ErrAddCheck string error
| ErrNoScriptSupport

definition Second :: Duration where
  "Second = 1000000000"

definition nomadServicePrefix :: string where
  "nomadServicePrefix = ''_nomad''"

definition defaultRetryInterval :: Duration where
  "defaultRetryInterval = Second"

definition defaultMaxRetryInterval :: Duration where
  "defaultMaxRetryInterval = 30 * Second"

definition ttlCheckBuffer :: Duration where
  "ttlCheckBuffer = 31 * Second"

text \<open>\<open>api.AgentServiceRegistration\<close> and \<open>api.AgentCheckRegistration\<close>, with the fields
  the client fills in.\<close>

record AgentServiceRegistration =
  sr_ID :: string
  sr_Name :: string
  sr_Tags :: "string list"
  sr_Address :: string
  sr_Port :: go_int

record AgentCheckRegistration =
  cr_ID :: string
  cr_Name :: string
  cr_ServiceID :: string
  cr_Status :: string
  cr_Timeout :: string
  cr_Interval :: string
  cr_HTTP :: string
  cr_TCP :: string
  cr_TTL :: string

text \<open>Modelled from the spec: \<open>structs.ServiceCheck\<close>, the declared check of the workload
  model, whose declaration is not among the sources; these are the fields the client reads.\<close>

record ServiceCheck =
  sc_Name :: string
  sc_Type :: string
  sc_Command :: string
  sc_Args :: "string list"
  sc_Path :: string
  sc_Protocol :: string
  sc_PortLabel :: string
  sc_Interval :: Duration
  sc_Timeout :: Duration
  sc_InitialStatus :: string

text \<open>\<open>scriptCheck\<close> without its references to the executor, the agent, the logger and
  the shutdown channel, which are interfaces; \<open>scriptHandle\<close> records whether its
  \<open>cancel\<close> has been invoked.\<close>

record scriptCheck =
  id :: string
  check :: ServiceCheck
  running :: bool
  lastCheckOk :: bool

record scriptHandle =
  cancelled :: bool

record operations =
  regServices :: "AgentServiceRegistration list"
  regChecks :: "AgentCheckRegistration list"
  op_scripts :: "scriptCheck list"
  deregServices :: "string list"
  deregChecks :: "string list"

text \<open>\<open>ServiceClient\<close>: the desired-state maps, the operation queue \<open>opCh\<close> (a buffered
  channel of capacity 8, oldest first), whether \<open>shutdownCh\<close> and \<open>exitCh\<close> are closed,
  and the agent's own IDs.\<close>

record ServiceClient =
  retryInterval :: Duration
  maxRetryInterval :: Duration
  exitCh :: bool
  shutdownCh :: bool
  opCh :: "operations list"
  services :: "string \<rightharpoonup> AgentServiceRegistration"
  checks :: "string \<rightharpoonup> AgentCheckRegistration"
  scripts :: "string \<rightharpoonup> scriptCheck"
  runningScripts :: "string \<rightharpoonup> scriptHandle"
  agentServices :: "string set"
  agentChecks :: "string set"

definition NewServiceClient :: ServiceClient where
  "NewServiceClient =
     \<lparr>retryInterval = defaultRetryInterval, maxRetryInterval = defaultMaxRetryInterval,
      exitCh = False, shutdownCh = False, opCh = [],
      services = Map.empty, checks = Map.empty, scripts = Map.empty,
      runningScripts = Map.empty, agentServices = {}, agentChecks = {}\<rparr>"

definition empty_operations :: operations where
  "empty_operations =
     \<lparr>regServices = [], regChecks = [], op_scripts = [], deregServices = [], deregChecks = []\<rparr>"

section \<open>merge\<close>

text \<open>The five loops of \<open>merge\<close>, one function each, in the order of the source.\<close>

fun merge_regServices :: "AgentServiceRegistration list \<Rightarrow> ServiceClient \<Rightarrow> ServiceClient" where
  "merge_regServices [] c = c"
| "merge_regServices (s # ss) c =
     merge_regServices ss (c\<lparr>services := (services c)(sr_ID s \<mapsto> s)\<rparr>)"

fun merge_regChecks :: "AgentCheckRegistration list \<Rightarrow> ServiceClient \<Rightarrow> ServiceClient" where
  "merge_regChecks [] c = c"
| "merge_regChecks (chk # chks) c =
     merge_regChecks chks (c\<lparr>checks := (checks c)(cr_ID chk \<mapsto> chk)\<rparr>)"

fun merge_scripts :: "scriptCheck list \<Rightarrow> ServiceClient \<Rightarrow> ServiceClient" where
  "merge_scripts [] c = c"
| "merge_scripts (s # ss) c =
     merge_scripts ss (c\<lparr>scripts := (scripts c)(id s \<mapsto> s)\<rparr>)"

fun merge_deregServices :: "string list \<Rightarrow> ServiceClient \<Rightarrow> ServiceClient" where
  "merge_deregServices [] c = c"
| "merge_deregServices (sid # sids) c =
     merge_deregServices sids (c\<lparr>services := (services c)(sid := None)\<rparr>)"

fun merge_deregChecks :: "string list \<Rightarrow> ServiceClient \<Rightarrow> ServiceClient" where
  "merge_deregChecks [] c = c"
| "merge_deregChecks (cid # cids) c =
     merge_deregChecks cids
       ((case runningScripts c cid of
           Some script \<Rightarrow>
             c\<lparr>runningScripts := (runningScripts c)(cid \<mapsto> script\<lparr>cancelled := True\<rparr>),
               scripts := (scripts c)(cid := None)\<rparr>
         | None \<Rightarrow> c)
        \<lparr>checks := (checks c)(cid := None)\<rparr>)"

definition merge :: "ServiceClient \<Rightarrow> operations \<Rightarrow> ServiceClient" where
  "merge c ops =
     merge_deregChecks (deregChecks ops)
       (merge_deregServices (deregServices ops)
         (merge_scripts (op_scripts ops)
           (merge_regChecks (regChecks ops)
             (merge_regServices (regServices ops) c))))"

section \<open>The registry agent\<close>

text \<open>Modelled from the spec: the remote registry behind \<open>AgentAPI\<close>, whose implementation
  is outside the sources. It holds one map of services and one of checks; registering
  installs the entry under its ID, deregistering removes it, and the two list operations
  return a snapshot. Any call may fail: \<open>con_faults\<close> gives the outcome of the calls still
  to come (\<open>Some e\<close> fails with \<open>e\<close> and leaves the registry as it is; once the list is
  used up every call succeeds). \<open>con_calls\<close> logs the mutating calls issued, oldest first,
  whether or not they succeeded.\<close>

record AgentService =
  as_ID :: string
  as_Service :: string
  as_Tags :: "string list"
  as_Port :: go_int
  as_Address :: string

record AgentCheck =
  ac_CheckID :: string
  ac_Name :: string
  ac_Status :: string
  ac_ServiceID :: string

datatype call =
  CallServiceRegister AgentServiceRegistration
| CallServiceDeregister string
| CallCheckRegister AgentCheckRegistration
| CallCheckDeregister string

record consul =
  con_services :: "string \<rightharpoonup> AgentService"
  con_checks :: "string \<rightharpoonup> AgentCheck"
  con_faults :: "string option list"
  con_calls :: "call list"

definition next_fault :: "consul \<Rightarrow> string option \<times> consul" where
  "next_fault r = (case con_faults r of [] \<Rightarrow> (None, r) | f # fs \<Rightarrow> (f, r\<lparr>con_faults := fs\<rparr>))"

definition Services :: "consul \<Rightarrow> (error + (string \<rightharpoonup> AgentService)) \<times> consul" where
  "Services r =
     (case next_fault r of
        (Some e, r') \<Rightarrow> (Inl (External e), r')
      | (None, r') \<Rightarrow> (Inr (con_services r'), r'))"

definition Checks :: "consul \<Rightarrow> (error + (string \<rightharpoonup> AgentCheck)) \<times> consul" where
  "Checks r =
     (case next_fault r of
        (Some e, r') \<Rightarrow> (Inl (External e), r')
      | (None, r') \<Rightarrow> (Inr (con_checks r'), r'))"

definition ServiceRegister :: "AgentServiceRegistration \<Rightarrow> consul \<Rightarrow> error option \<times> consul" where
  "ServiceRegister s r =
     (case next_fault r of
        (Some e, r') \<Rightarrow> (Some (External e), r'\<lparr>con_calls := con_calls r' @ [CallServiceRegister s]\<rparr>)
      | (None, r') \<Rightarrow>
          (None, r'\<lparr>con_services := (con_services r')(sr_ID s \<mapsto>
                         \<lparr>as_ID = sr_ID s, as_Service = sr_Name s, as_Tags = sr_Tags s,
                          as_Port = sr_Port s, as_Address = sr_Address s\<rparr>),
                     con_calls := con_calls r' @ [CallServiceRegister s]\<rparr>))"

definition ServiceDeregister :: "string \<Rightarrow> consul \<Rightarrow> error option \<times> consul" where
  "ServiceDeregister serviceID r =
     (case next_fault r of
        (Some e, r') \<Rightarrow> (Some (External e), r'\<lparr>con_calls := con_calls r' @ [CallServiceDeregister serviceID]\<rparr>)
      | (None, r') \<Rightarrow>
          (None, r'\<lparr>con_services := (con_services r')(serviceID := None),
                     con_calls := con_calls r' @ [CallServiceDeregister serviceID]\<rparr>))"

definition CheckRegister :: "AgentCheckRegistration \<Rightarrow> consul \<Rightarrow> error option \<times> consul" where
  "CheckRegister chk r =
     (case next_fault r of
        (Some e, r') \<Rightarrow> (Some (External e), r'\<lparr>con_calls := con_calls r' @ [CallCheckRegister chk]\<rparr>)
      | (None, r') \<Rightarrow>
          (None, r'\<lparr>con_checks := (con_checks r')(cr_ID chk \<mapsto>
                         \<lparr>ac_CheckID = cr_ID chk, ac_Name = cr_Name chk, ac_Status = cr_Status chk,
                          ac_ServiceID = cr_ServiceID chk\<rparr>),
                     con_calls := con_calls r' @ [CallCheckRegister chk]\<rparr>))"

definition CheckDeregister :: "string \<Rightarrow> consul \<Rightarrow> error option \<times> consul" where
  "CheckDeregister checkID r =
     (case next_fault r of
        (Some e, r') \<Rightarrow> (Some (External e), r'\<lparr>con_calls := con_calls r' @ [CallCheckDeregister checkID]\<rparr>)
      | (None, r') \<Rightarrow>
          (None, r'\<lparr>con_checks := (con_checks r')(checkID := None),
                     con_calls := con_calls r' @ [CallCheckDeregister checkID]\<rparr>))"

section \<open>sync\<close>

definition isNomadService :: "string \<Rightarrow> bool" where
  "isNomadService i = prefix nomadServicePrefix i"

text \<open>A \<open>for ... range\<close> over a Go map visits every entry once, in an order the language
  leaves open. \<open>range_map m ks\<close> is the sequence of entries visited when the keys come up
  in the order \<open>ks\<close>; a pass over the whole map is one with \<open>set ks = dom m\<close>. The four
  orders of one \<open>sync\<close> are its first argument.\<close>

definition range_map :: "('k \<rightharpoonup> 'v) \<Rightarrow> 'k list \<Rightarrow> ('k \<times> 'v) list" where
  "range_map m ks = List.map_filter (\<lambda>k. map_option (Pair k) (m k)) (remdups ks)"

record orders =
  ord_consulServices :: "string list"
  ord_services :: "string list"
  ord_consulChecks :: "string list"
  ord_checks :: "string list"

text \<open>\<open>scriptCheck.run\<close> as \<open>sync\<close> sees it: it marks the check running and returns a
  handle that has not been cancelled. The worker it starts is \<open>run_worker\<close> below.\<close>

definition run :: "scriptCheck \<Rightarrow> scriptHandle \<times> scriptCheck" where
  "run s = (\<lparr>cancelled = False\<rparr>, s\<lparr>running := True\<rparr>)"

text \<open>The four loops of \<open>sync\<close>. Each stops at the first error of the agent and returns
  it. The counters \<open>sreg\<close>, \<open>creg\<close>, \<open>sdereg\<close>, \<open>cdereg\<close> feed the closing debug line only
  and are left out.\<close>

fun sync_deregServices ::
  "ServiceClient \<Rightarrow> (string \<times> AgentService) list \<Rightarrow> consul \<Rightarrow> error option \<times> consul" where
  "sync_deregServices c [] r = (None, r)"
| "sync_deregServices c ((i, _) # rest) r =
     (if services c i \<noteq> None then sync_deregServices c rest r
      else if \<not> isNomadService i then sync_deregServices c rest r
      else (case ServiceDeregister i r of
              (Some err, r') \<Rightarrow> (Some err, r')
            | (None, r') \<Rightarrow> sync_deregServices c rest r'))"

fun sync_regServices ::
  "(string \<rightharpoonup> AgentService) \<Rightarrow> (string \<times> AgentServiceRegistration) list \<Rightarrow> consul
     \<Rightarrow> error option \<times> consul" where
  "sync_regServices consulServices [] r = (None, r)"
| "sync_regServices consulServices ((i, service) # rest) r =
     (if consulServices i \<noteq> None then sync_regServices consulServices rest r
      else (case ServiceRegister service r of
              (Some err, r') \<Rightarrow> (Some err, r')
            | (None, r') \<Rightarrow> sync_regServices consulServices rest r'))"

fun sync_deregChecks ::
  "ServiceClient \<Rightarrow> (string \<times> AgentCheck) list \<Rightarrow> consul \<Rightarrow> error option \<times> consul" where
  "sync_deregChecks c [] r = (None, r)"
| "sync_deregChecks c ((i, chk) # rest) r =
     (if checks c i \<noteq> None then sync_deregChecks c rest r
      else if \<not> isNomadService (ac_ServiceID chk) then sync_deregChecks c rest r
      else (case CheckDeregister i r of
              (Some err, r') \<Rightarrow> (Some err, r')
            | (None, r') \<Rightarrow> sync_deregChecks c rest r'))"

fun sync_regChecks ::
  "(string \<rightharpoonup> AgentCheck) \<Rightarrow> (string \<times> AgentCheckRegistration) list \<Rightarrow> ServiceClient \<Rightarrow> consul
     \<Rightarrow> error option \<times> ServiceClient \<times> consul" where
  "sync_regChecks consulChecks [] c r = (None, c, r)"
| "sync_regChecks consulChecks ((i, chk) # rest) c r =
     (if consulChecks i \<noteq> None then sync_regChecks consulChecks rest c r
      else (case CheckRegister chk r of
              (Some err, r') \<Rightarrow> (Some err, c, r')
            | (None, r') \<Rightarrow>
                (case scripts c i of
                   Some script \<Rightarrow>
                     (if runningScripts c i \<noteq> None then sync_regChecks consulChecks rest c r'
                      else (case run script of
                              (h, script') \<Rightarrow>
                                sync_regChecks consulChecks rest
                                  (c\<lparr>runningScripts := (runningScripts c)(i \<mapsto> h),
                                     scripts := (scripts c)(i \<mapsto> script')\<rparr>) r'))
                 | None \<Rightarrow> sync_regChecks consulChecks rest c r')))"

definition sync :: "orders \<Rightarrow> ServiceClient \<Rightarrow> consul \<Rightarrow> error option \<times> ServiceClient \<times> consul" where
  "sync ord c r =
     (case Services r of
        (Inl err, r1) \<Rightarrow> (Some (ErrQueryServices err), c, r1)
      | (Inr consulServices, r1) \<Rightarrow>
     (case Checks r1 of
        (Inl err, r2) \<Rightarrow> (Some (ErrQueryChecks err), c, r2)
      | (Inr consulChecks, r2) \<Rightarrow>
     (case sync_deregServices c (range_map consulServices (ord_consulServices ord)) r2 of
        (Some err, r3) \<Rightarrow> (Some err, c, r3)
      | (None, r3) \<Rightarrow>
     (case sync_regServices consulServices (range_map (services c) (ord_services ord)) r3 of
        (Some err, r4) \<Rightarrow> (Some err, c, r4)
      | (None, r4) \<Rightarrow>
     (case sync_deregChecks c (range_map consulChecks (ord_consulChecks ord)) r4 of
        (Some err, r5) \<Rightarrow> (Some err, c, r5)
      | (None, r5) \<Rightarrow>
          sync_regChecks consulChecks (range_map (checks c) (ord_checks ord)) c r5)))))"

text \<open>Consecutive reconcile passes, one per element of the list, each with its own
  iteration orders; the error of a pass only decides the retry timer (see \<open>Run\<close>).\<close>

fun sync_passes :: "orders list \<Rightarrow> ServiceClient \<Rightarrow> consul \<Rightarrow> ServiceClient \<times> consul" where
  "sync_passes [] c r = (c, r)"
| "sync_passes (ord # ords) c r =
     (case sync ord c r of (_, c', r') \<Rightarrow> sync_passes ords c' r')"

section \<open>Run\<close>

text \<open>The state of the main loop: the client, the registry it talks to, the local
  \<open>failures\<close>, the retry timer (\<open>Some d\<close> when armed to fire after \<open>d\<close>, \<open>None\<close> when
  stopped or already received from) and the lines logged.\<close>

datatype run_log = LogSyncFailed error | LogSyncRecovered

record run_state =
  rs_client :: ServiceClient
  rs_consul :: consul
  failures :: go_int
  retryTimer :: "Duration option"
  rs_log :: "run_log list"

datatype wakeup = WakeRetryTimer | WakeShutdownCh | WakeOpCh

text \<open>The first \<open>select\<close> of the loop body, told which case is taken; \<open>None\<close> when that
  case is not ready (timer not armed, channel not closed, queue empty).\<close>

definition Run_select :: "wakeup \<Rightarrow> run_state \<Rightarrow> run_state option" where
  "Run_select w s =
     (case w of
        WakeRetryTimer \<Rightarrow> (if retryTimer s \<noteq> None then Some (s\<lparr>retryTimer := None\<rparr>) else None)
      | WakeShutdownCh \<Rightarrow> (if shutdownCh (rs_client s) then Some s else None)
      | WakeOpCh \<Rightarrow>
          (case opCh (rs_client s) of
             [] \<Rightarrow> None
           | ops # q \<Rightarrow> Some (s\<lparr>rs_client := merge ((rs_client s)\<lparr>opCh := q\<rparr>) ops\<rparr>)))"

text \<open>The \<open>sync\<close> call of the loop body with its failure accounting: on an error
  \<open>failures\<close> is incremented and the timer is stopped, drained and reset to the backoff;
  on success a positive \<open>failures\<close> is set back to zero.\<close>

definition Run_sync :: "orders \<Rightarrow> run_state \<Rightarrow> run_state" where
  "Run_sync ord s =
     (case sync ord (rs_client s) (rs_consul s) of
        (Some err, c', r') \<Rightarrow>
          (let lg = (if failures s = 0 then rs_log s @ [LogSyncFailed err] else rs_log s);
               failures' = failures s + 1;
               backoff = retryInterval c' * failures';
               backoff' = (if maxRetryInterval c' <s backoff then maxRetryInterval c' else backoff)
           in s\<lparr>rs_client := c', rs_consul := r', failures := failures',
                 retryTimer := Some backoff', rs_log := lg\<rparr>)
      | (None, c', r') \<Rightarrow>
          (if 0 <s failures s
           then s\<lparr>rs_client := c', rs_consul := r', failures := 0,
                  rs_log := rs_log s @ [LogSyncRecovered]\<rparr>
           else s\<lparr>rs_client := c', rs_consul := r'\<rparr>))"

text \<open>The closing \<open>select\<close>: once shutdown is signalled the queue is drained into the
  store and the loop goes round once more, or, with an empty queue, \<open>Run\<close> returns and
  closes \<open>exitCh\<close>.\<close>

fun Run_drain :: "operations list \<Rightarrow> ServiceClient \<Rightarrow> ServiceClient" where
  "Run_drain [] c = c\<lparr>opCh := []\<rparr>"
| "Run_drain (ops # q) c = Run_drain q (merge c ops)"

definition Run_exit :: "run_state \<Rightarrow> run_state" where
  "Run_exit s =
     (let c = rs_client s in
      if shutdownCh c
      then (if opCh c \<noteq> [] then s\<lparr>rs_client := Run_drain (opCh c) c\<rparr>
            else s\<lparr>rs_client := c\<lparr>exitCh := True\<rparr>\<rparr>)
      else s)"

text \<open>\<open>Run\<close> over a schedule of wake-ups: an entry whose case is not ready is passed over
  (the \<open>select\<close> keeps waiting), and nothing happens after \<open>Run\<close> has returned. When the
  schedule is used up the loop is waiting in its \<open>select\<close>.\<close>

definition Run_init :: "ServiceClient \<Rightarrow> consul \<Rightarrow> run_state" where
  "Run_init c r = \<lparr>rs_client = c, rs_consul = r, failures = 0, retryTimer = None, rs_log = []\<rparr>"

fun Run :: "(wakeup \<times> orders) list \<Rightarrow> run_state \<Rightarrow> run_state" where
  "Run [] s = s"
| "Run ((w, ord) # rest) s =
     (if exitCh (rs_client s) then s
      else (case Run_select w s of
              None \<Rightarrow> Run rest s
            | Some s1 \<Rightarrow> Run rest (Run_exit (Run_sync ord s1))))"

section \<open>Identifiers and check registrations\<close>

text \<open>Modelled from the spec: the workload model \<open>structs.Service\<close> and \<open>structs.Task\<close>
  with the check type constants, declared outside the sources. \<open>FindHostAndPortFor\<close> is
  the task's method, kept as a field.\<close>

record Service =
  s_Name :: string
  s_Tags :: "string list"
  s_PortLabel :: string
  s_Checks :: "ServiceCheck list"

record Task =
  t_Name :: string
  t_Services :: "Service list"
  FindHostAndPortFor :: "string \<Rightarrow> string \<times> go_int"

definition ServiceCheckHTTP :: string where
  "ServiceCheckHTTP = ''http''"

definition ServiceCheckTCP :: string where
  "ServiceCheckTCP = ''tcp''"

definition ServiceCheckScript :: string where
  "ServiceCheckScript = ''script''"

text \<open>The library functions the translation calls are parameters: \<open>Duration.String\<close>,
  \<open>url.Parse\<close>, \<open>ResolveReference\<close> of the base URL with the given scheme and host
  followed by \<open>String\<close>, \<open>net.JoinHostPort\<close>, \<open>strconv.Itoa\<close>, and \<open>ServiceCheck.Hash\<close>.\<close>

datatype URL = URL string

record externals =
  Duration_String :: "Duration \<Rightarrow> string"
  url_Parse :: "string \<Rightarrow> string + URL"
  ResolveReference_String :: "string \<Rightarrow> string \<Rightarrow> URL \<Rightarrow> string"
  JoinHostPort :: "string \<Rightarrow> string \<Rightarrow> string"
  Itoa :: "go_int \<Rightarrow> string"
  Hash :: "ServiceCheck \<Rightarrow> string \<Rightarrow> string"

fun Join :: "string list \<Rightarrow> string \<Rightarrow> string" where
  "Join [] sep = []"
| "Join [a] sep = a"
| "Join (a # b # rest) sep = a @ sep @ Join (b # rest) sep"

definition makeAgentServiceID :: "string \<Rightarrow> Service \<Rightarrow> string" where
  "makeAgentServiceID role service =
     Join ([nomadServicePrefix, role, s_Name service] @ s_Tags service) ''-''"

definition makeTaskServiceID :: "string \<Rightarrow> string \<Rightarrow> Service \<Rightarrow> string" where
  "makeTaskServiceID allocID taskName service =
     Join ([nomadServicePrefix, ''executor'', allocID, taskName, s_Name service] @ s_Tags service) ''-''"

definition createCheckID :: "externals \<Rightarrow> string \<Rightarrow> ServiceCheck \<Rightarrow> string" where
  "createCheckID X serviceID chk = Hash X chk serviceID"

text \<open>\<open>createCheckReg\<close> receives the check by pointer and may write to it, so the model
  returns the check as the call leaves it next to the result.\<close>

definition createCheckReg ::
  "externals \<Rightarrow> string \<Rightarrow> string \<Rightarrow> ServiceCheck \<Rightarrow> string \<Rightarrow> go_int
     \<Rightarrow> (error + AgentCheckRegistration) \<times> ServiceCheck" where
  "createCheckReg X serviceID checkID chk host port =
     (let chkReg = \<lparr>cr_ID = checkID, cr_Name = sc_Name chk, cr_ServiceID = serviceID,
                     cr_Status = sc_InitialStatus chk,
                     cr_Timeout = Duration_String X (sc_Timeout chk),
                     cr_Interval = Duration_String X (sc_Interval chk),
                     cr_HTTP = [], cr_TCP = [], cr_TTL = []\<rparr>
      in if sc_Type chk = ServiceCheckHTTP then
           (let chk' = (if sc_Protocol chk = [] then chk\<lparr>sc_Protocol := ''http''\<rparr> else chk)
            in case url_Parse X (sc_Path chk') of
                 Inl err \<Rightarrow> (Inl (External err), chk')
               | Inr relative \<Rightarrow>
                   (Inr (chkReg\<lparr>cr_HTTP :=
                           ResolveReference_String X (sc_Protocol chk')
                             (JoinHostPort X host (Itoa X port)) relative\<rparr>), chk'))
         else if sc_Type chk = ServiceCheckTCP then
           (Inr (chkReg\<lparr>cr_TCP := JoinHostPort X host (Itoa X port)\<rparr>), chk)
         else if sc_Type chk = ServiceCheckScript then
           (Inr (chkReg\<lparr>cr_TTL := Duration_String X (sc_Interval chk + ttlCheckBuffer)\<rparr>), chk)
         else (Inl (ErrCheckTypeNotValid (sc_Type chk)), chk))"

section \<open>Submitting operations\<close>

text \<open>\<open>commit\<close> is a \<open>select\<close> between sending on \<open>opCh\<close> (ready while the buffer of 8
  has room) and receiving from \<open>shutdownCh\<close> (ready once it is closed). When both are ready
  Go picks either one; the first argument says which. With neither ready the caller
  waits, which is \<open>None\<close>.\<close>

datatype select_pick = PickSend | PickShutdown

definition commit :: "select_pick \<Rightarrow> ServiceClient \<Rightarrow> operations \<Rightarrow> (bool \<times> ServiceClient) option" where
  "commit pick c ops =
     (let send_ready = (length (opCh c) < 8); shutdown_ready = shutdownCh c
      in if send_ready \<and> (\<not> shutdown_ready \<or> pick = PickSend)
         then Some (True, c\<lparr>opCh := opCh c @ [ops]\<rparr>)
         else if shutdown_ready then Some (False, c)
         else None)"

definition newScriptCheck :: "string \<Rightarrow> ServiceCheck \<Rightarrow> scriptCheck" where
  "newScriptCheck i chk = \<lparr>id = i, check = chk, running = False, lastCheckOk = True\<rparr>"

text \<open>The loop of \<open>serviceRegs\<close> over the checks of a service. The executor is an
  interface value that may be \<open>nil\<close>, here \<open>None\<close>. The checks are returned as the loop
  leaves them, those not reached unchanged.\<close>

fun serviceRegs_checks ::
  "externals \<Rightarrow> Task \<Rightarrow> 'x option \<Rightarrow> AgentServiceRegistration \<Rightarrow> ServiceCheck list \<Rightarrow> operations
     \<Rightarrow> error option \<times> operations \<times> ServiceCheck list" where
  "serviceRegs_checks X task exec serviceReg [] ops = (None, ops, [])"
| "serviceRegs_checks X task exec serviceReg (chk # rest) ops =
     (let checkID = createCheckID X (sr_ID serviceReg) chk
      in if sc_Type chk = ServiceCheckScript \<and> exec = None
         then (Some ErrNoScriptSupport, ops, chk # rest)
         else
           (let ops1 = (if sc_Type chk = ServiceCheckScript
                        then ops\<lparr>op_scripts := op_scripts ops @ [newScriptCheck checkID chk]\<rparr>
                        else ops);
                (host, port) = (if sc_PortLabel chk \<noteq> []
                                then FindHostAndPortFor task (sc_PortLabel chk)
                                else (sr_Address serviceReg, sr_Port serviceReg))
            in case createCheckReg X (sr_ID serviceReg) checkID chk host port of
                 (Inl err, chk') \<Rightarrow> (Some (ErrAddCheck (sc_Name chk') err), ops1, chk' # rest)
               | (Inr checkReg, chk') \<Rightarrow>
                   (case serviceRegs_checks X task exec serviceReg rest
                           (ops1\<lparr>regChecks := regChecks ops1 @ [checkReg]\<rparr>) of
                      (e, ops2, rest') \<Rightarrow> (e, ops2, chk' # rest'))))"

definition serviceRegs ::
  "externals \<Rightarrow> operations \<Rightarrow> string \<Rightarrow> Service \<Rightarrow> 'x option \<Rightarrow> Task
     \<Rightarrow> error option \<times> operations \<times> Service" where
  "serviceRegs X ops allocID service exec task =
     (let i = makeTaskServiceID allocID (t_Name task) service;
          (host, port) = FindHostAndPortFor task (s_PortLabel service);
          serviceReg = \<lparr>sr_ID = i, sr_Name = s_Name service, sr_Tags = s_Tags service,
                         sr_Address = host, sr_Port = port\<rparr>;
          ops1 = ops\<lparr>regServices := regServices ops @ [serviceReg]\<rparr>
      in case serviceRegs_checks X task exec serviceReg (s_Checks service) ops1 of
           (e, ops2, checks') \<Rightarrow> (e, ops2, service\<lparr>s_Checks := checks'\<rparr>))"

fun RegisterTask_services ::
  "externals \<Rightarrow> string \<Rightarrow> 'x option \<Rightarrow> Task \<Rightarrow> Service list \<Rightarrow> operations
     \<Rightarrow> error option \<times> operations \<times> Service list" where
  "RegisterTask_services X allocID exec task [] ops = (None, ops, [])"
| "RegisterTask_services X allocID exec task (service # rest) ops =
     (case serviceRegs X ops allocID service exec task of
        (Some err, ops1, service') \<Rightarrow> (Some err, ops1, service' # rest)
      | (None, ops1, service') \<Rightarrow>
          (case RegisterTask_services X allocID exec task rest ops1 of
             (e, ops2, rest') \<Rightarrow> (e, ops2, service' # rest')))"

text \<open>\<open>RegisterTask\<close> returns its error result, the client and the task as the call
  leaves them; \<open>None\<close> while \<open>commit\<close> waits. The value \<open>commit\<close> returns is discarded,
  as in the source.\<close>

definition RegisterTask ::
  "externals \<Rightarrow> select_pick \<Rightarrow> ServiceClient \<Rightarrow> string \<Rightarrow> Task \<Rightarrow> 'x option
     \<Rightarrow> (error option \<times> ServiceClient \<times> Task) option" where
  "RegisterTask X pick c allocID task exec =
     (case RegisterTask_services X allocID exec task (t_Services task) empty_operations of
        (Some err, ops, services') \<Rightarrow> Some (Some err, c, task\<lparr>t_Services := services'\<rparr>)
      | (None, ops, services') \<Rightarrow>
          (case commit pick c ops of
             None \<Rightarrow> None
           | Some (_, c') \<Rightarrow> Some (None, c', task\<lparr>t_Services := services'\<rparr>)))"

fun RemoveTask_checks :: "externals \<Rightarrow> string \<Rightarrow> ServiceCheck list \<Rightarrow> operations \<Rightarrow> operations" where
  "RemoveTask_checks X i [] ops = ops"
| "RemoveTask_checks X i (chk # rest) ops =
     RemoveTask_checks X i rest (ops\<lparr>deregChecks := deregChecks ops @ [createCheckID X i chk]\<rparr>)"

fun RemoveTask_services :: "externals \<Rightarrow> string \<Rightarrow> Task \<Rightarrow> Service list \<Rightarrow> operations \<Rightarrow> operations" where
  "RemoveTask_services X allocID task [] ops = ops"
| "RemoveTask_services X allocID task (service # rest) ops =
     (let i = makeTaskServiceID allocID (t_Name task) service
      in RemoveTask_services X allocID task rest
           (RemoveTask_checks X i (s_Checks service)
              (ops\<lparr>deregServices := deregServices ops @ [i]\<rparr>)))"

definition RemoveTask ::
  "externals \<Rightarrow> select_pick \<Rightarrow> ServiceClient \<Rightarrow> string \<Rightarrow> Task \<Rightarrow> ServiceClient option" where
  "RemoveTask X pick c allocID task =
     (case commit pick c (RemoveTask_services X allocID task (t_Services task) empty_operations) of
        None \<Rightarrow> None
      | Some (_, c') \<Rightarrow> Some c')"

section \<open>The script worker\<close>

text \<open>The goroutine of \<open>scriptCheck.run\<close>. What it meets in one turn of its loop comes from
  outside and is the record \<open>exec_env\<close>: the case its \<open>select\<close> takes, what \<open>Exec\<close> returns
  (output, exit code, the text of the error if there is one), what \<open>execctx.Err()\<close> says
  afterwards, the text of the error of \<open>UpdateTTL\<close> if there is one, whether \<open>ctx\<close> is
  cancelled when the heartbeat has returned, and whether \<open>shutdownCh\<close> is closed at the end
  of the turn. What the worker does is the list of its \<open>worker_event\<close>s, in order.\<close>

datatype health = HealthPassing | HealthWarning | HealthCritical

datatype ctx_err = CtxNil | Canceled | DeadlineExceeded

datatype worker_wake = WakeCtxDone | WakeShutdown | WakeTimer

datatype worker_event =
  TimerReset Duration
| Exec string "string list" Duration
| LogTimedOut string Duration
| UpdateTTL string string health
| LogUpdateFailed string string
| LogUpdateStillFailing string string
| LogUpdateSucceeded string
| Done

record exec_env =
  e_wake :: worker_wake
  e_output :: string
  e_code :: go_int
  e_err :: "string option"
  e_ctx_err :: ctx_err
  e_ttl_err :: "string option"
  e_ctx_done :: bool
  e_shutdown :: bool

text \<open>One turn of the loop; the last component says whether the goroutine returns. A
  closed channel stays closed, so the closing \<open>select\<close> finds \<open>shutdownCh\<close> closed when the
  turn was woken by it.\<close>

definition run_iteration :: "scriptCheck \<Rightarrow> exec_env \<Rightarrow> worker_event list \<times> scriptCheck \<times> bool" where
  "run_iteration s e =
     (if e_wake e = WakeCtxDone then ([], s, True)
      else
        (let ev0 = (if e_wake e = WakeTimer then [TimerReset (sc_Interval (check s))] else []);
             ev1 = ev0 @ [Exec (sc_Command (check s)) (sc_Args (check s)) (sc_Timeout (check s))]
         in if e_ctx_err e = Canceled then (ev1, s, True)
            else
              (let (s1, ev2) =
                     (if e_ctx_err e = DeadlineExceeded
                      then (s\<lparr>lastCheckOk := False\<rparr>,
                            ev1 @ [LogTimedOut (sc_Name (check s)) (sc_Timeout (check s))])
                      else (s, ev1));
                   state = (if e_code e = 0 then HealthPassing
                            else if e_code e = 1 then HealthWarning
                            else HealthCritical);
                   (state', output') =
                     (case e_err e of
                        Some msg \<Rightarrow> (HealthCritical, msg)
                      | None \<Rightarrow> (state, e_output e));
                   ev3 = ev2 @ [UpdateTTL (id s1) output' state']
               in if e_ctx_done e then (ev3, s1, True)
                  else
                    (let (s2, ev4) =
                           (case e_ttl_err e of
                              Some err \<Rightarrow>
                                (if lastCheckOk s1
                                 then (s1\<lparr>lastCheckOk := False\<rparr>,
                                       ev3 @ [LogUpdateFailed (sc_Name (check s1)) err])
                                 else (s1, ev3 @ [LogUpdateStillFailing (sc_Name (check s1)) err]))
                            | None \<Rightarrow>
                                (if \<not> lastCheckOk s1
                                 then (s1\<lparr>lastCheckOk := True\<rparr>,
                                       ev3 @ [LogUpdateSucceeded (sc_Name (check s1))])
                                 else (s1, ev3)))
                     in (ev4, s2, e_wake e = WakeShutdown \<or> e_shutdown e)))))"

text \<open>The worker over the turns the environment offers. When it returns, the deferred
  \<open>close(done)\<close> is its last event and the result says \<open>True\<close>; with the turns used up it is
  waiting in its \<open>select\<close> and the result says \<open>False\<close>.\<close>

fun run_worker :: "scriptCheck \<Rightarrow> exec_env list \<Rightarrow> worker_event list \<times> scriptCheck \<times> bool" where
  "run_worker s [] = ([], s, False)"
| "run_worker s (e # es) =
     (case run_iteration s e of
        (evs, s', True) \<Rightarrow> (evs @ [Done], s', True)
      | (evs, s', False) \<Rightarrow>
          (case run_worker s' es of (evs', s'', exited) \<Rightarrow> (evs @ evs', s'', exited)))"

section \<open>Auxiliary definitions for the statements\<close>

text \<open>The handles of the given check IDs with \<open>cancel\<close> invoked, the others as they are.\<close>

definition cancel_all :: "string set \<Rightarrow> (string \<rightharpoonup> scriptHandle) \<Rightarrow> (string \<rightharpoonup> scriptHandle)" where
  "cancel_all C m = (\<lambda>i. if i \<in> C then map_option (\<lambda>h. h\<lparr>cancelled := True\<rparr>) (m i) else m i)"

text \<open>Concrete values used in the examples.\<close>

definition svc_v1 :: AgentServiceRegistration where
  "svc_v1 = \<lparr>sr_ID = ''_nomad-executor-a1-web-web-v1'', sr_Name = ''web'', sr_Tags = [''v1''],
             sr_Address = ''10.0.0.1'', sr_Port = 8080\<rparr>"

definition script_check :: ServiceCheck where
  "script_check = \<lparr>sc_Name = ''alive'', sc_Type = ''script'', sc_Command = ''/bin/check'',
      sc_Args = [], sc_Path = [], sc_Protocol = [], sc_PortLabel = [],
      sc_Interval = 10 * Second, sc_Timeout = 2 * Second, sc_InitialStatus = []\<rparr>"

definition chk1_reg :: AgentCheckRegistration where
  "chk1_reg = \<lparr>cr_ID = ''chk1'', cr_Name = ''alive'', cr_ServiceID = ''_nomad-executor-a1-web-web-v1'',
      cr_Status = [], cr_Timeout = ''2s'', cr_Interval = ''10s'', cr_HTTP = [], cr_TCP = [],
      cr_TTL = ''41s''\<rparr>"

definition store_with_script :: ServiceClient where
  "store_with_script =
     NewServiceClient\<lparr>services := [''_nomad-executor-a1-web-web-v1'' \<mapsto> svc_v1],
       checks := [''chk1'' \<mapsto> chk1_reg],
       scripts := [''chk1'' \<mapsto> (newScriptCheck ''chk1'' script_check)\<lparr>running := True\<rparr>],
       runningScripts := [''chk1'' \<mapsto> \<lparr>cancelled = False\<rparr>]\<rparr>"

section \<open>Properties of merge\<close>

lemma upd_add_rev:
  "m(k \<mapsto> v) ++ map_of (rev xs) = m ++ map_of (rev ((k, v) # xs))"
  by (simp add: fun_eq_iff map_add_def split: option.splits)

lemma merge_regServices_eq:
  "merge_regServices ss c =
     c\<lparr>services := services c ++ map_of (rev (map (\<lambda>s. (sr_ID s, s)) ss))\<rparr>"
proof (induction ss arbitrary: c)
  case Nil
  show ?case by simp
next
  case (Cons s ss)
  show ?case
    unfolding merge_regServices.simps Cons.IH
    using upd_add_rev [of "services c" "sr_ID s" s "map (\<lambda>s. (sr_ID s, s)) ss"]
    by (cases c) simp
qed

lemma merge_regChecks_eq:
  "merge_regChecks ks c =
     c\<lparr>checks := checks c ++ map_of (rev (map (\<lambda>k. (cr_ID k, k)) ks))\<rparr>"
proof (induction ks arbitrary: c)
  case Nil
  show ?case by simp
next
  case (Cons k ks)
  show ?case
    unfolding merge_regChecks.simps Cons.IH
    using upd_add_rev [of "checks c" "cr_ID k" k "map (\<lambda>k. (cr_ID k, k)) ks"]
    by (cases c) simp
qed

lemma merge_scripts_eq:
  "merge_scripts ss c =
     c\<lparr>scripts := scripts c ++ map_of (rev (map (\<lambda>s. (id s, s)) ss))\<rparr>"
proof (induction ss arbitrary: c)
  case Nil
  show ?case by simp
next
  case (Cons s ss)
  show ?case
    unfolding merge_scripts.simps Cons.IH
    using upd_add_rev [of "scripts c" "id s" s "map (\<lambda>s. (id s, s)) ss"]
    by (cases c) simp
qed

lemma restrict_del: "(m(k := None)) |` (- set ks) = m |` (- set (k # ks))"
  by (auto simp: fun_eq_iff restrict_map_def)

lemma merge_deregServices_eq:
  "merge_deregServices sids c = c\<lparr>services := services c |` (- set sids)\<rparr>"
proof (induction sids arbitrary: c)
  case Nil
  show ?case by simp
next
  case (Cons sid sids)
  show ?case
    unfolding merge_deregServices.simps Cons.IH
    using restrict_del [of "services c" sid sids]
    by (cases c) (simp del: restrict_complement_singleton_eq)
qed

lemma cancel_all_step_None:
  "m cid = None \<Longrightarrow> cancel_all (set cids) m = cancel_all (set (cid # cids)) m"
  by (auto simp: fun_eq_iff cancel_all_def)

lemma cancel_all_step_Some:
  "m cid = Some h \<Longrightarrow>
   cancel_all (set cids) (m(cid \<mapsto> h\<lparr>cancelled := True\<rparr>)) = cancel_all (set (cid # cids)) m"
  by (auto simp: fun_eq_iff cancel_all_def)

lemma scripts_step_None:
  "r cid = None \<Longrightarrow> m |` (- (set cids \<inter> dom r)) = m |` (- (set (cid # cids) \<inter> dom r))"
  by (auto simp: fun_eq_iff restrict_map_def dom_def)

lemma scripts_step_Some:
  "r cid = Some h \<Longrightarrow>
   (m(cid := None)) |` (- (set cids \<inter> dom (r(cid \<mapsto> h')))) = m |` (- (set (cid # cids) \<inter> dom r))"
  by (auto simp: fun_eq_iff restrict_map_def dom_def)

lemma merge_deregChecks_eq:
  "merge_deregChecks cids c =
     c\<lparr>checks := checks c |` (- set cids),
       scripts := scripts c |` (- (set cids \<inter> dom (runningScripts c))),
       runningScripts := cancel_all (set cids) (runningScripts c)\<rparr>"
proof (induction cids arbitrary: c)
  case Nil
  show ?case by (simp add: cancel_all_def)
next
  case (Cons cid cids)
  show ?case
  proof (cases "runningScripts c cid")
    case None
    show ?thesis
      unfolding merge_deregChecks.simps Cons.IH
      using None restrict_del [of "checks c" cid cids]
        cancel_all_step_None [of "runningScripts c" cid cids]
        scripts_step_None [of "runningScripts c" cid "scripts c" cids]
      by (cases c) (simp del: restrict_complement_singleton_eq)
  next
    case (Some h)
    show ?thesis
      unfolding merge_deregChecks.simps Cons.IH
      using Some restrict_del [of "checks c" cid cids]
        cancel_all_step_Some [of "runningScripts c" cid h cids]
        scripts_step_Some [of "runningScripts c" cid h "scripts c" cids "h\<lparr>cancelled := True\<rparr>"]
      by (cases c) (simp del: restrict_complement_singleton_eq)
  qed
qed


lemma map_of_keyed_find:
  "map_of (map (\<lambda>s. (f s, s)) ys) i = find (\<lambda>s. f s = i) ys"
  by (induction ys) auto

lemma upserts_apply:
  "(m ++ map_of (rev (map (\<lambda>s. (f s, s)) xs))) i =
     (case find (\<lambda>s. f s = i) (rev xs) of Some s \<Rightarrow> Some s | None \<Rightarrow> m i)"
proof -
  have "map_of (rev (map (\<lambda>s. (f s, s)) xs)) i = find (\<lambda>s. f s = i) (rev xs)"
    using map_of_keyed_find [of f "rev xs" i] by (simp add: rev_map)
  then show ?thesis
    by (simp add: map_add_def split: option.splits)
qed

lemma merge_eq:
  "merge c ops =
     c\<lparr>services := (services c ++ map_of (rev (map (\<lambda>s. (sr_ID s, s)) (regServices ops))))
                     |` (- set (deregServices ops)),
       checks := (checks c ++ map_of (rev (map (\<lambda>k. (cr_ID k, k)) (regChecks ops))))
                     |` (- set (deregChecks ops)),
       scripts := (scripts c ++ map_of (rev (map (\<lambda>s. (id s, s)) (op_scripts ops))))
                     |` (- (set (deregChecks ops) \<inter> dom (runningScripts c))),
       runningScripts := cancel_all (set (deregChecks ops)) (runningScripts c)\<rparr>"
  unfolding merge_def merge_regServices_eq merge_regChecks_eq merge_scripts_eq
    merge_deregServices_eq merge_deregChecks_eq
  by (cases c) simp

text \<open>
  Claim C3, as amended. \<open>merge\<close> runs its loops in the order register-services,
  register-checks, register-scripts, deregister-services, deregister-checks. Since the
  additions come before the removals, an ID that one batch both adds and removes is absent
  from the store afterwards: for services and for checks the removal wins, whatever the
  store held before; an ID the batch does not remove holds the last registration the batch
  carries for it, or else what the store held. A script definition is dropped exactly for
  the removed check IDs that have a handle in \<open>runningScripts\<close>.
\<close>

theorem merge_removal_wins:
  "services (merge c ops) i =
     (if i \<in> set (deregServices ops) then None
      else case find (\<lambda>s. sr_ID s = i) (rev (regServices ops)) of
             Some s \<Rightarrow> Some s | None \<Rightarrow> services c i) \<and>
   checks (merge c ops) i =
     (if i \<in> set (deregChecks ops) then None
      else case find (\<lambda>k. cr_ID k = i) (rev (regChecks ops)) of
             Some k \<Rightarrow> Some k | None \<Rightarrow> checks c i) \<and>
   scripts (merge c ops) i =
     (if i \<in> set (deregChecks ops) \<and> runningScripts c i \<noteq> None then None
      else case find (\<lambda>s. id s = i) (rev (op_scripts ops)) of
             Some s \<Rightarrow> Some s | None \<Rightarrow> scripts c i)"
  unfolding merge_eq
  by (simp add: restrict_map_def upserts_apply dom_def)

text \<open>The theorem at a batch that registers \<open>svc_v1\<close> and removes its ID, and at one that
  only registers it.\<close>

theorem merge_removal_wins_witness:
  "services (merge NewServiceClient
       (empty_operations\<lparr>regServices := [svc_v1], deregServices := [''_nomad-executor-a1-web-web-v1'']\<rparr>))
     ''_nomad-executor-a1-web-web-v1'' = None
   \<and> services (merge NewServiceClient (empty_operations\<lparr>regServices := [svc_v1]\<rparr>))
     ''_nomad-executor-a1-web-web-v1'' = Some svc_v1"
  using merge_removal_wins [of NewServiceClient
      "empty_operations\<lparr>regServices := [svc_v1], deregServices := [''_nomad-executor-a1-web-web-v1'']\<rparr>"
      "''_nomad-executor-a1-web-web-v1''"]
    merge_removal_wins [of NewServiceClient "empty_operations\<lparr>regServices := [svc_v1]\<rparr>"
      "''_nomad-executor-a1-web-web-v1''"]
  by (simp add: empty_operations_def svc_v1_def)

text \<open>Claim C3 as stated fails: a batch that re-adds and removes the ID of \<open>svc_v1\<close>
  leaves that ID out of \<open>services\<close>.\<close>

theorem merge_readd_counterexample:
  "sr_ID svc_v1 \<in> set (deregServices
       (empty_operations\<lparr>regServices := [svc_v1], deregServices := [sr_ID svc_v1]\<rparr>))
   \<and> svc_v1 \<in> set (regServices
       (empty_operations\<lparr>regServices := [svc_v1], deregServices := [sr_ID svc_v1]\<rparr>))
   \<and> services (merge NewServiceClient
         (empty_operations\<lparr>regServices := [svc_v1], deregServices := [sr_ID svc_v1]\<rparr>))
       (sr_ID svc_v1) = None"
  by (simp add: merge_def empty_operations_def svc_v1_def NewServiceClient_def)

text \<open>\<open>merge\<close> never removes a key from \<open>runningScripts\<close>: it invokes \<open>cancel\<close> on the
  handles of the removed check IDs and keeps every handle where it is.\<close>

lemma merge_runningScripts:
  "runningScripts (merge c ops) = cancel_all (set (deregChecks ops)) (runningScripts c)"
  unfolding merge_eq by simp

lemma dom_merge_runningScripts:
  "dom (runningScripts (merge c ops)) = dom (runningScripts c)"
  unfolding merge_runningScripts by (auto simp: cancel_all_def dom_def split: if_splits)

text \<open>
  Claim C2 at the store \<open>store_with_script\<close>, where the check \<open>''chk1''\<close> has a script
  definition and a live handle, merged with a batch that deregisters \<open>''chk1''\<close>. Before
  the merge every key of \<open>runningScripts\<close> is a key of \<open>scripts\<close>. After it the handle has
  been cancelled and the script definition is gone, but the handle is still in
  \<open>runningScripts\<close>, so \<open>runningScripts\<close> is no longer contained in \<open>scripts\<close>.
\<close>

theorem merge_keeps_cancelled_handle:
  "dom (runningScripts store_with_script) \<subseteq> dom (scripts store_with_script)
   \<and> runningScripts (merge store_with_script (empty_operations\<lparr>deregChecks := [''chk1'']\<rparr>)) ''chk1''
       = Some \<lparr>cancelled = True\<rparr>
   \<and> scripts (merge store_with_script (empty_operations\<lparr>deregChecks := [''chk1'']\<rparr>)) ''chk1'' = None
   \<and> \<not> dom (runningScripts (merge store_with_script (empty_operations\<lparr>deregChecks := [''chk1'']\<rparr>)))
         \<subseteq> dom (scripts (merge store_with_script (empty_operations\<lparr>deregChecks := [''chk1'']\<rparr>)))"
  by (simp add: merge_def empty_operations_def store_with_script_def NewServiceClient_def)

end
